theory Spec2Isabelle
  imports Main "HOL-Library.Sublist"
begin

section \<open>FileIndexManager: data model\<close>

text \<open>
  Modelled from the spec: the directory abstraction (\<^verbatim>\<open>NativeFileSystem\<close>) and the root
  provider (\<^verbatim>\<open>ProjectManager\<close>) are collaborators whose code is not part of
  \<^verbatim>\<open>FileIndexManager.js\<close>. An entry exposes \<^verbatim>\<open>name\<close>, \<^verbatim>\<open>fullPath\<close>, \<^verbatim>\<open>isFile\<close> and
  \<^verbatim>\<open>isDirectory\<close>; \<^verbatim>\<open>createReader().readEntries(ok, err)\<close> either hands the list of
  children to \<^verbatim>\<open>ok\<close> (\<open>Some es\<close>) or calls \<^verbatim>\<open>err\<close> (\<open>None\<close>). Both callbacks are taken to
  run before \<^verbatim>\<open>readEntries\<close> returns, so that one walk is one function call. The project
  root is an \<open>entry option\<close>, \<open>None\<close> being \<^verbatim>\<open>null\<close>.
\<close>

datatype entry =
  Entry (entry_name: string) (entry_fullPath: string) (isFile: bool) (isDirectory: bool)
        (readEntries: "entry list option")

text \<open>\<^verbatim>\<open>function FileInfo(entry)\<close>: the two fields copied from the entry.\<close>

record FileInfo =
  name :: string
  fullPath :: string

definition newFileInfo :: "entry \<Rightarrow> FileInfo" where
  "newFileInfo e = \<lparr>name = entry_name e, fullPath = entry_fullPath e\<rparr>"

text \<open>\<^verbatim>\<open>function FileIndex(indexName, filterFunction)\<close>; the field \<^verbatim>\<open>this.name\<close> is
  called \<open>indexName\<close> here.\<close>

record FileIndex =
  indexName :: string
  fileInfos :: "FileInfo list"
  filterFunction :: "entry \<Rightarrow> bool"

definition newFileIndex :: "string \<Rightarrow> (entry \<Rightarrow> bool) \<Rightarrow> FileIndex" where
  "newFileIndex n f = \<lparr>indexName = n, fileInfos = [], filterFunction = f\<rparr>"

text \<open>
  The module's variables \<^verbatim>\<open>_indexList\<close> (an object used as a dictionary from ordinary
  string keys to indexes) and \<^verbatim>\<open>_indexListDirty\<close>, and the number of times
  \<^verbatim>\<open>_showMaxFilesDialog\<close> has been called, which is the one effect of the module outside
  its own variables.
\<close>

record state =
  indexList :: "string \<rightharpoonup> FileIndex"
  indexListDirty :: bool
  maxFilesDialogs :: nat

text \<open>\<^verbatim>\<open>throw new Error(msg)\<close>.\<close>

datatype error = Error string

abbreviation DuplicateIndexError :: error where
  "DuplicateIndexError \<equiv> Error ''Duplicate index name''"

abbreviation InvalidArgumentError :: error where
  "InvalidArgumentError \<equiv> Error ''Invalid arguments''"

abbreviation UnknownIndexError :: error where
  "UnknownIndexError \<equiv> Error ''indexName not found''"

text \<open>The second argument of \<^verbatim>\<open>_addIndex\<close>: a value whose \<^verbatim>\<open>typeof\<close> is
  \<^verbatim>\<open>"function"\<close>, or any other value.\<close>

datatype filterArg = Callable "entry \<Rightarrow> bool" | NotCallable

text \<open>
  The values the variable \<^verbatim>\<open>fileCount\<close> can hold: \<^verbatim>\<open>undefined\<close> when the argument is
  omitted, \<^verbatim>\<open>NaN\<close>, or a number. \<^verbatim>\<open>fileCount > 10000\<close> converts \<^verbatim>\<open>undefined\<close> to
  \<^verbatim>\<open>NaN\<close>, and every comparison with \<^verbatim>\<open>NaN\<close> is false; \<^verbatim>\<open>fileCount++\<close> stores
  \<^verbatim>\<open>ToNumber(fileCount) + 1\<close>.
\<close>

datatype jsnum = Undefined | NaN | Num int

fun js_gt :: "jsnum \<Rightarrow> int \<Rightarrow> bool" where
  "js_gt (Num n) k = (n > k)"
| "js_gt NaN k = False"
| "js_gt Undefined k = False"

fun js_incr :: "jsnum \<Rightarrow> jsnum" where
  "js_incr (Num n) = Num (n + 1)"
| "js_incr NaN = NaN"
| "js_incr Undefined = NaN"

text \<open>\<^verbatim>\<open>String.prototype.slice(start, end)\<close>: a negative position counts from the end,
  both are clamped to the string, and an empty range gives the empty string.\<close>

definition slice :: "string \<Rightarrow> int \<Rightarrow> int \<Rightarrow> string" where
  "slice s start end =
     (let len = int (length s);
          from = (if start < 0 then max (len + start) 0 else min start len);
          to = (if end < 0 then max (len + end) 0 else min end len)
      in take (nat (to - from)) (drop (nat from) s))"

section \<open>Index registry\<close>

text \<open>
  \<^verbatim>\<open>_addIndex\<close>. The object \<^verbatim>\<open>_indexList\<close> is read as a dictionary. The object and the
  dictionary differ for two names: an assignment to the key \<^verbatim>\<open>__proto__\<close> sets the
  object's prototype and creates no key, and an index named \<^verbatim>\<open>hasOwnProperty\<close> shadows
  the method that \<^verbatim>\<open>_addIndex\<close> and \<^verbatim>\<open>getFileInfoList\<close> call, so that later calls throw a
  \<^verbatim>\<open>TypeError\<close>. The module itself registers \<^verbatim>\<open>all\<close> and \<^verbatim>\<open>css\<close> only; what is stated of
  \<open>addIndex\<close> below leaves the two names out.
\<close>

definition addIndex :: "string \<Rightarrow> filterArg \<Rightarrow> state \<Rightarrow> (error + unit) \<times> state" where
  "addIndex n f s =
     (if indexList s n \<noteq> None then (Inl DuplicateIndexError, s)
      else case f of
        NotCallable \<Rightarrow> (Inl InvalidArgumentError, s)
      | Callable g \<Rightarrow>
          (Inr (), s\<lparr>indexList := (indexList s)(n \<mapsto> newFileIndex n g),
                     indexListDirty := True\<rparr>))"

definition filterAndAdd :: "entry \<Rightarrow> FileInfo \<Rightarrow> FileIndex \<Rightarrow> FileIndex" where
  "filterAndAdd e fi index =
     (if filterFunction index e then index\<lparr>fileInfos := fileInfos index @ [fi]\<rparr> else index)"

text \<open>\<^verbatim>\<open>$.each(_indexList, ...)\<close> visits every index once; the indexes do not depend on
  one another, so the visit is a pointwise update of the dictionary.\<close>

definition addFileToIndexes :: "entry \<Rightarrow> state \<Rightarrow> state" where
  "addFileToIndexes e s =
     (let fileInfo = newFileInfo e
      in s\<lparr>indexList := (\<lambda>k. map_option (filterAndAdd e fileInfo) (indexList s k))\<rparr>)"

definition showMaxFilesDialog :: "state \<Rightarrow> state" where
  "showMaxFilesDialog s = s\<lparr>maxFilesDialogs := Suc (maxFilesDialogs s)\<rparr>"

definition clearIndexes :: "state \<Rightarrow> state" where
  "clearIndexes s =
     s\<lparr>indexList := (\<lambda>k. map_option (\<lambda>index. index\<lparr>fileInfos := []\<rparr>) (indexList s k))\<rparr>"

definition markDirty :: "state \<Rightarrow> state" where
  "markDirty s = s\<lparr>indexListDirty := True\<rparr>"

section \<open>Sync engine\<close>

text \<open>
  \<open>scanDirectoryRecurse\<close> is \<^verbatim>\<open>_scanDirectoryRecurse(dirEntry, fileCount)\<close>, and
  \<open>scanEntries\<close> is the \<^verbatim>\<open>entries.forEach\<close> of its success callback, which increments the
  caller's variable \<^verbatim>\<open>fileCount\<close> at every file. The recursive call
  \<^verbatim>\<open>_scanDirectoryRecurse(entry)\<close> passes no second argument, so the callee's
  \<^verbatim>\<open>fileCount\<close> is \<^verbatim>\<open>undefined\<close>. The error callback does nothing.
\<close>

fun scanDirectoryRecurse :: "entry option \<Rightarrow> jsnum \<Rightarrow> state \<Rightarrow> state"
  and scanEntries :: "entry list \<Rightarrow> jsnum \<Rightarrow> state \<Rightarrow> state" where
  "scanDirectoryRecurse None fileCount s = s"
| "scanDirectoryRecurse (Some (Entry n p f d r)) fileCount s =
     (if js_gt fileCount 10000 then showMaxFilesDialog s
      else case r of
        None \<Rightarrow> s
      | Some entries \<Rightarrow> scanEntries entries fileCount s)"
| "scanEntries [] fileCount s = s"
| "scanEntries (e # es) fileCount s =
     (if isFile e then scanEntries es (js_incr fileCount) (addFileToIndexes e s)
      else if isDirectory e then scanEntries es fileCount (scanDirectoryRecurse (Some e) Undefined s)
      else scanEntries es fileCount s)"

text \<open>\<^verbatim>\<open>syncFileIndex()\<close>; \<open>root\<close> is what \<^verbatim>\<open>ProjectManager.getProjectRoot()\<close> returns, and
  the call \<^verbatim>\<open>_scanDirectoryRecurse(root)\<close> passes no file count either.\<close>

definition syncFileIndex :: "entry option \<Rightarrow> state \<Rightarrow> state" where
  "syncFileIndex root s =
     (if indexListDirty s
      then (scanDirectoryRecurse root Undefined (clearIndexes s))\<lparr>indexListDirty := False\<rparr>
      else s)"

section \<open>Query API\<close>

definition getFileInfoList :: "entry option \<Rightarrow> string \<Rightarrow> state \<Rightarrow> (error + FileInfo list) \<times> state" where
  "getFileInfoList root n s =
     (let s' = syncFileIndex root s
      in case indexList s' n of
           None \<Rightarrow> (Inl UnknownIndexError, s')
         | Some index \<Rightarrow> (Inr (fileInfos index), s'))"

text \<open>The \<^verbatim>\<open>fileList.forEach\<close> of \<^verbatim>\<open>getFilteredList\<close>, pushing onto \<^verbatim>\<open>results\<close>.\<close>

fun pushMatching :: "(string \<Rightarrow> bool) \<Rightarrow> FileInfo list \<Rightarrow> FileInfo list \<Rightarrow> FileInfo list" where
  "pushMatching f [] results = results"
| "pushMatching f (fileInfo # rest) results =
     pushMatching f rest (if f (name fileInfo) then results @ [fileInfo] else results)"

definition getFilteredList ::
  "entry option \<Rightarrow> string \<Rightarrow> (string \<Rightarrow> bool) \<Rightarrow> state \<Rightarrow> (error + FileInfo list) \<times> state" where
  "getFilteredList root n f s =
     (let s1 = syncFileIndex root s
      in case getFileInfoList root n s1 of
           (Inl err, s2) \<Rightarrow> (Inl err, s2)
         | (Inr fileList, s2) \<Rightarrow> (Inr (pushMatching f fileList []), s2))"

definition getFilenameMatches ::
  "entry option \<Rightarrow> string \<Rightarrow> string \<Rightarrow> state \<Rightarrow> (error + FileInfo list) \<times> state" where
  "getFilenameMatches root n filename s = getFilteredList root n (\<lambda>item. item = filename) s"

section \<open>Module initialisation\<close>

definition allFilter :: "entry \<Rightarrow> bool" where
  "allFilter e = True"

definition cssFilter :: "entry \<Rightarrow> bool" where
  "cssFilter e =
     (let filename = entry_name e
      in slice filename (int (length filename) - 4) (int (length filename)) = ''.css'')"

definition emptyState :: state where
  "emptyState = \<lparr>indexList = Map.empty, indexListDirty = True, maxFilesDialogs = 0\<rparr>"

text \<open>The state once the module body has run its two \<^verbatim>\<open>_addIndex\<close> calls.\<close>

definition moduleState :: state where
  "moduleState =
     snd (addIndex ''css'' (Callable cssFilter)
       (snd (addIndex ''all'' (Callable allFilter) emptyState)))"

text \<open>The handler of \<^verbatim>\<open>projectRootChanged\<close>: it ignores its arguments and calls
  \<^verbatim>\<open>syncFileIndex()\<close>, which asks the root provider for the root.\<close>

definition projectRootChanged :: "entry option \<Rightarrow> state \<Rightarrow> state" where
  "projectRootChanged root s = syncFileIndex root s"

text \<open>The states the module can be in once its body has run. \<^verbatim>\<open>_addIndex\<close> is private
  and is not called again; the exported functions and the root-change handler change
  the state through \<^verbatim>\<open>markDirty\<close> and \<^verbatim>\<open>syncFileIndex\<close> only, with any project root.\<close>

inductive reachable :: "state \<Rightarrow> bool" where
  reachable_init: "reachable moduleState"
| reachable_markDirty: "reachable s \<Longrightarrow> reachable (markDirty s)"
| reachable_sync: "reachable s \<Longrightarrow> reachable (syncFileIndex root s)"

section \<open>Auxiliary definitions for the proofs\<close>

text \<open>Every record of every index is the record of some file entry that the index's
  filter accepts.\<close>

definition recordsFromAcceptedFiles :: "state \<Rightarrow> bool" where
  "recordsFromAcceptedFiles s =
     (\<forall>k index r. indexList s k = Some index \<longrightarrow> r \<in> set (fileInfos index) \<longrightarrow>
        (\<exists>e. isFile e \<and> newFileInfo e = r \<and> filterFunction index e))"

text \<open>Project trees used as concrete inputs.\<close>

definition fileEntry :: "string \<Rightarrow> string \<Rightarrow> entry" where
  "fileEntry n p = Entry n p True False None"

definition dirEntry :: "string \<Rightarrow> string \<Rightarrow> entry list \<Rightarrow> entry" where
  "dirEntry n p es = Entry n p False True (Some es)"

definition cssTree :: entry where
  "cssTree = dirEntry ''proj'' ''/proj''
     [fileEntry ''main.js'' ''/proj/main.js'',
      fileEntry ''theme.css'' ''/proj/theme.css'',
      fileEntry ''reset.CSS'' ''/proj/reset.CSS'']"

definition styleTree :: entry where
  "styleTree = dirEntry ''root'' ''/''
     [dirEntry ''a'' ''/a''
        [fileEntry ''index.html'' ''/a/index.html'', fileEntry ''style.css'' ''/a/style.css''],
      dirEntry ''b'' ''/b'' [fileEntry ''style.css'' ''/b/style.css'']]"

definition otherTree :: entry where
  "otherTree = dirEntry ''other'' ''/other'' [fileEntry ''readme.txt'' ''/other/readme.txt'']"

text \<open>A directory holding \<open>k\<close> files, named \<^verbatim>\<open>0\<close>, \<^verbatim>\<open>1\<close>, ... in decimal.\<close>

fun decimal :: "nat \<Rightarrow> string" where
  "decimal k =
     (if k < 10 then [char_of (48 + k)] else decimal (k div 10) @ [char_of (48 + k mod 10)])"

declare decimal.simps [simp del]

definition numberedFile :: "nat \<Rightarrow> entry" where
  "numberedFile i = fileEntry (decimal i) (''/big/'' @ decimal i)"

definition bigDirectory :: "nat \<Rightarrow> entry" where
  "bigDirectory k = dirEntry ''big'' ''/big'' (map numberedFile [0..<k])"

lemmas model_defs =
  syncFileIndex_def moduleState_def emptyState_def addIndex_def newFileIndex_def
  clearIndexes_def addFileToIndexes_def filterAndAdd_def newFileInfo_def
  getFileInfoList_def getFilteredList_def getFilenameMatches_def projectRootChanged_def
  fileEntry_def dirEntry_def allFilter_def cssFilter_def slice_def

section \<open>Properties of the walk\<close>

text \<open>Whatever the two state-changing steps of the walk preserve, the walk preserves.\<close>

lemma scan_invariant:
  assumes add: "\<And>e s. isFile e \<Longrightarrow> I s \<Longrightarrow> I (addFileToIndexes e s)"
      and dlg: "\<And>s. I s \<Longrightarrow> I (showMaxFilesDialog s)"
  shows "I s \<Longrightarrow> I (scanDirectoryRecurse d fc s)"
    and "I s \<Longrightarrow> I (scanEntries es fc s)"
proof (induction d fc s and es fc s rule: scanDirectoryRecurse_scanEntries.induct)
  case (1 fileCount s)
  then show ?case by simp
next
  case (2 n p f d r fileCount s)
  then show ?case by (auto simp: dlg split: option.splits)
next
  case (3 fileCount s)
  then show ?case by simp
next
  case (4 e es fileCount s)
  then show ?case by (auto simp: add)
qed

lemma scan_dirty:
  "indexListDirty (scanDirectoryRecurse d fc s) = indexListDirty s"
  by (rule scan_invariant(1) [where I = "\<lambda>t. indexListDirty t = indexListDirty s"])
     (simp_all add: addFileToIndexes_def showMaxFilesDialog_def)

lemma scan_registered:
  "(indexList (scanDirectoryRecurse d fc s) k = None) = (indexList s k = None)"
  by (rule scan_invariant(1) [where I = "\<lambda>t. (indexList t k = None) = (indexList s k = None)"])
     (simp_all add: addFileToIndexes_def showMaxFilesDialog_def)

text \<open>The dialog is shown only by a call that is handed a number above 10000; the calls
  the walk makes itself hand over \<^verbatim>\<open>undefined\<close>.\<close>

lemma scan_dialogs:
  "\<not> js_gt fc 10000 \<Longrightarrow> maxFilesDialogs (scanDirectoryRecurse d fc s) = maxFilesDialogs s"
  "maxFilesDialogs (scanEntries es fc s) = maxFilesDialogs s"
  by (induction d fc s and es fc s rule: scanDirectoryRecurse_scanEntries.induct)
     (auto simp: addFileToIndexes_def split: option.splits)

lemma pushMatching_filter:
  "pushMatching f xs acc = acc @ filter (\<lambda>fi. f (name fi)) xs"
  by (induction xs arbitrary: acc) auto

lemma sync_clean: "\<not> indexListDirty (syncFileIndex root s)"
  by (simp add: syncFileIndex_def)

lemma sync_registered:
  "(indexList (syncFileIndex root s) k = None) = (indexList s k = None)"
  by (simp add: syncFileIndex_def scan_registered clearIndexes_def)

lemma slice_length_le: "length (slice s a b) \<le> length s"
proof -
  have "length (take n (drop m s)) \<le> length s" for n m
    by simp
  then show ?thesis
    unfolding slice_def Let_def .
qed

lemma cssFilter_suffix: "cssFilter e = suffix ''.css'' (entry_name e)"
proof (cases "length (entry_name e) < 4")
  case True
  have "length (slice (entry_name e) (int (length (entry_name e)) - 4) (int (length (entry_name e)))) < 4"
    using True slice_length_le [of "entry_name e"] by (meson le_less_trans)
  then have "\<not> cssFilter e"
    by (auto simp: cssFilter_def Let_def)
  moreover have "\<not> suffix ''.css'' (entry_name e)"
    using True by (auto simp: suffix_def)
  ultimately show ?thesis by simp
next
  case False
  then have sl: "slice (entry_name e) (int (length (entry_name e)) - 4) (int (length (entry_name e)))
      = drop (length (entry_name e) - 4) (entry_name e)"
    by (simp add: slice_def Let_def nat_diff_distrib')
  show ?thesis
  proof
    assume "cssFilter e"
    then have "drop (length (entry_name e) - 4) (entry_name e) = ''.css''"
      using sl by (simp add: cssFilter_def Let_def)
    then have "entry_name e = take (length (entry_name e) - 4) (entry_name e) @ ''.css''"
      by (metis append_take_drop_id)
    then show "suffix ''.css'' (entry_name e)"
      unfolding suffix_def by blast
  next
    assume "suffix ''.css'' (entry_name e)"
    then obtain zs where "entry_name e = zs @ ''.css''"
      by (auto simp: suffix_def)
    then have "drop (length (entry_name e) - 4) (entry_name e) = ''.css''"
      by simp
    then show "cssFilter e"
      using sl by (simp add: cssFilter_def Let_def)
  qed
qed

subsection \<open>Records come from accepted files\<close>

lemma accepted_clearIndexes: "recordsFromAcceptedFiles (clearIndexes s)"
  by (auto simp: recordsFromAcceptedFiles_def clearIndexes_def)

lemma accepted_addFileToIndexes:
  assumes "isFile e" and "recordsFromAcceptedFiles s"
  shows "recordsFromAcceptedFiles (addFileToIndexes e s)"
  unfolding recordsFromAcceptedFiles_def
proof (intro allI impI)
  fix k index r
  assume k: "indexList (addFileToIndexes e s) k = Some index"
     and r: "r \<in> set (fileInfos index)"
  from k obtain old where old: "indexList s k = Some old"
     and index: "index = filterAndAdd e (newFileInfo e) old"
    by (auto simp: addFileToIndexes_def)
  have flt: "filterFunction index = filterFunction old"
    by (simp add: index filterAndAdd_def)
  show "\<exists>e. isFile e \<and> newFileInfo e = r \<and> filterFunction index e"
  proof (cases "r \<in> set (fileInfos old)")
    case True
    with old assms(2) show ?thesis
      unfolding recordsFromAcceptedFiles_def flt by blast
  next
    case False
    with r index have "filterFunction old e \<and> r = newFileInfo e"
      by (auto simp: filterAndAdd_def split: if_splits)
    with assms(1) show ?thesis
      unfolding flt by blast
  qed
qed

lemma accepted_scan:
  "recordsFromAcceptedFiles s \<Longrightarrow> recordsFromAcceptedFiles (scanDirectoryRecurse root fc s)"
  by (rule scan_invariant(1) [where I = recordsFromAcceptedFiles])
     (simp_all add: accepted_addFileToIndexes, simp add: recordsFromAcceptedFiles_def showMaxFilesDialog_def)

lemma accepted_sync:
  "indexListDirty s \<or> recordsFromAcceptedFiles s \<Longrightarrow> recordsFromAcceptedFiles (syncFileIndex root s)"
proof (cases "indexListDirty s")
  case True
  have "recordsFromAcceptedFiles (scanDirectoryRecurse root Undefined (clearIndexes s))"
    by (rule accepted_scan) (rule accepted_clearIndexes)
  then show ?thesis
    using True by (simp add: syncFileIndex_def recordsFromAcceptedFiles_def)
next
  case False
  assume "indexListDirty s \<or> recordsFromAcceptedFiles s"
  with False show ?thesis
    by (simp add: syncFileIndex_def)
qed

lemma accepted_moduleState: "recordsFromAcceptedFiles moduleState"
  by (simp add: recordsFromAcceptedFiles_def moduleState_def addIndex_def emptyState_def
      newFileIndex_def)

lemma accepted_reachable: "reachable s \<Longrightarrow> recordsFromAcceptedFiles s"
proof (induction rule: reachable.induct)
  case reachable_init
  show ?case by (rule accepted_moduleState)
next
  case (reachable_markDirty s)
  then show ?case by (simp add: recordsFromAcceptedFiles_def markDirty_def)
next
  case (reachable_sync s root)
  then show ?case by (simp add: accepted_sync)
qed

subsection \<open>The filters of the registry stay as the module registered them\<close>

lemma filterAndAdd_filter: "filterFunction (filterAndAdd e fi index) = filterFunction index"
  by (simp add: filterAndAdd_def)

lemma addFileToIndexes_filters:
  "map_option filterFunction (indexList (addFileToIndexes e s) k) =
     map_option filterFunction (indexList s k)"
  by (cases "indexList s k") (simp_all add: addFileToIndexes_def filterAndAdd_filter)

lemma scan_filters:
  "map_option filterFunction (indexList (scanDirectoryRecurse d fc s) k) =
     map_option filterFunction (indexList s k)"
  by (rule scan_invariant(1)
        [where I = "\<lambda>t. map_option filterFunction (indexList t k) =
                         map_option filterFunction (indexList s k)"])
     (simp_all add: addFileToIndexes_filters showMaxFilesDialog_def)

lemma clearIndexes_filters:
  "map_option filterFunction (indexList (clearIndexes s) k) =
     map_option filterFunction (indexList s k)"
  by (cases "indexList s k") (simp_all add: clearIndexes_def)

lemma sync_filters:
  "map_option filterFunction (indexList (syncFileIndex root s) k) =
     map_option filterFunction (indexList s k)"
  by (simp add: syncFileIndex_def scan_filters clearIndexes_filters)

lemma reachable_filters:
  "reachable s \<Longrightarrow>
     map_option filterFunction (indexList s k) =
       map_option filterFunction (indexList moduleState k)"
  by (induction rule: reachable.induct) (simp_all add: markDirty_def sync_filters)

lemma moduleState_filters:
  "map_option filterFunction (indexList moduleState k) = Some g \<Longrightarrow>
     g = allFilter \<or> g = cssFilter"
  by (auto simp: moduleState_def emptyState_def addIndex_def newFileIndex_def
      split: if_splits)

lemma reachable_filter_cases:
  assumes "reachable s" and "indexList s k = Some index"
  shows "filterFunction index = allFilter \<or> filterFunction index = cssFilter"
proof -
  from assms(2) have "map_option filterFunction (indexList s k) = Some (filterFunction index)"
    by simp
  with reachable_filters [OF assms(1), of k]
  have "map_option filterFunction (indexList moduleState k) = Some (filterFunction index)"
    by simp
  then show ?thesis
    by (rule moduleState_filters)
qed

subsection \<open>The walk over a directory of files\<close>

lemma scanEntries_files:
  "\<forall>e\<in>set es. isFile e \<Longrightarrow>
     indexList (scanEntries es fc s) k =
       map_option
         (\<lambda>index. index\<lparr>fileInfos :=
            fileInfos index @ map newFileInfo (filter (filterFunction index) es)\<rparr>)
         (indexList s k)"
proof (induction es arbitrary: fc s)
  case Nil
  show ?case by (cases "indexList s k") simp_all
next
  case (Cons e es)
  then have "indexList (scanEntries (e # es) fc s) k =
       map_option
         (\<lambda>index. index\<lparr>fileInfos :=
            fileInfos index @ map newFileInfo (filter (filterFunction index) es)\<rparr>)
         (indexList (addFileToIndexes e s) k)"
    by simp
  then show ?case
    by (cases "indexList s k") (simp_all add: addFileToIndexes_def filterAndAdd_def)
qed

lemma sync_dialogs: "maxFilesDialogs (syncFileIndex root s) = maxFilesDialogs s"
  by (simp add: syncFileIndex_def scan_dialogs clearIndexes_def)

lemma sync_bigDirectory:
  "map_option (\<lambda>index. length (fileInfos index))
     (indexList (syncFileIndex (Some (bigDirectory k)) moduleState) ''all'') = Some k"
proof -
  have files: "\<forall>e\<in>set (map numberedFile [0..<k]). isFile e"
    by (simp add: numberedFile_def fileEntry_def)
  have dirty: "indexListDirty moduleState"
    by (simp add: moduleState_def emptyState_def addIndex_def)
  have cleared: "indexList (clearIndexes moduleState) ''all'' = Some (newFileIndex ''all'' allFilter)"
    by (simp add: clearIndexes_def moduleState_def emptyState_def addIndex_def newFileIndex_def)
  have "indexList (syncFileIndex (Some (bigDirectory k)) moduleState) ''all'' =
          indexList (scanEntries (map numberedFile [0..<k]) Undefined (clearIndexes moduleState)) ''all''"
    using dirty by (simp add: syncFileIndex_def bigDirectory_def dirEntry_def)
  also have "\<dots> = Some ((newFileIndex ''all'' allFilter)\<lparr>fileInfos :=
        map newFileInfo (filter allFilter (map numberedFile [0..<k]))\<rparr>)"
    by (simp add: scanEntries_files [OF files] cleared newFileIndex_def)
  finally show ?thesis
    by (simp add: allFilter_def)
qed

subsection \<open>Queries and concrete trees\<close>

lemma getFilteredList_eq:
  "getFilteredList root n f s =
     (case indexList (syncFileIndex root s) n of
        None \<Rightarrow> Inl UnknownIndexError
      | Some index \<Rightarrow> Inr (filter (\<lambda>r. f (name r)) (fileInfos index)),
      syncFileIndex root s)"
proof -
  have "syncFileIndex root (syncFileIndex root s) = syncFileIndex root s"
    by (simp add: syncFileIndex_def)
  then show ?thesis
    by (simp add: getFilteredList_def getFileInfoList_def Let_def pushMatching_filter
        split: option.splits)
qed

lemma css_index_after_sync:
  "indexList (syncFileIndex (Some cssTree) moduleState) ''css'' =
     Some \<lparr>indexName = ''css'',
           fileInfos = [\<lparr>name = ''theme.css'', fullPath = ''/proj/theme.css''\<rparr>],
           filterFunction = cssFilter\<rparr>"
  by (simp add: model_defs cssTree_def)

lemma all_index_styleTree:
  "indexList (syncFileIndex (Some styleTree) moduleState) ''all'' =
     Some \<lparr>indexName = ''all'',
           fileInfos = [\<lparr>name = ''index.html'', fullPath = ''/a/index.html''\<rparr>,
                        \<lparr>name = ''style.css'', fullPath = ''/a/style.css''\<rparr>,
                        \<lparr>name = ''style.css'', fullPath = ''/b/style.css''\<rparr>],
           filterFunction = allFilter\<rparr>"
  by (simp add: model_defs styleTree_def)

section \<open>Claims\<close>

text \<open>
  C1. The claim: one count of visited files runs across the whole walk, a tree of more
  than 10000 files aborts the walk when the count passes 10000, the too-many-files notifier
  is called exactly once, and the dirty flag is cleared afterwards. The code does not do
  this: no call of \<^verbatim>\<open>_scanDirectoryRecurse\<close> is handed a count, so the test
  \<^verbatim>\<open>fileCount > 10000\<close> compares \<^verbatim>\<open>undefined\<close> and is false at every directory. No
  sync ever calls the notifier; for a project root holding 10001 files the notifier is
  called zero times, all 10001 files are put in the index \<^verbatim>\<open>all\<close>, and the dirty flag
  is cleared.
\<close>

theorem file_ceiling_never_reached:
  "maxFilesDialogs (syncFileIndex root s) = maxFilesDialogs s \<and>
   maxFilesDialogs (syncFileIndex (Some (bigDirectory 10001)) moduleState) = 0 \<and>
   map_option (\<lambda>index. length (fileInfos index))
     (indexList (syncFileIndex (Some (bigDirectory 10001)) moduleState) ''all'') = Some 10001 \<and>
   \<not> indexListDirty (syncFileIndex (Some (bigDirectory 10001)) moduleState)"
proof -
  have "maxFilesDialogs moduleState = 0"
    by (simp add: moduleState_def emptyState_def addIndex_def)
  then show ?thesis
    by (simp add: sync_dialogs sync_bigDirectory sync_clean)
qed

text \<open>
  C2. The claim: a root-change notification sets the dirty flag to true. The handler
  calls \<^verbatim>\<open>syncFileIndex()\<close> instead of \<^verbatim>\<open>markDirty()\<close>: after it the flag is false in
  every state. On a registry that was synced for one project, a change of root to another
  project leaves the state as it was, and the next query still returns the files of the
  old project, where the same query after \<^verbatim>\<open>markDirty()\<close> returns the files of the
  new one.
\<close>

theorem projectRootChanged_does_not_invalidate:
  "\<not> indexListDirty (projectRootChanged root s) \<and>
   projectRootChanged (Some otherTree) (syncFileIndex (Some cssTree) moduleState) =
     syncFileIndex (Some cssTree) moduleState \<and>
   fst (getFileInfoList (Some otherTree) ''all''
          (projectRootChanged (Some otherTree) (syncFileIndex (Some cssTree) moduleState))) =
     Inr [\<lparr>name = ''main.js'', fullPath = ''/proj/main.js''\<rparr>,
          \<lparr>name = ''theme.css'', fullPath = ''/proj/theme.css''\<rparr>,
          \<lparr>name = ''reset.CSS'', fullPath = ''/proj/reset.CSS''\<rparr>] \<and>
   fst (getFileInfoList (Some otherTree) ''all'' (markDirty (syncFileIndex (Some cssTree) moduleState))) =
     Inr [\<lparr>name = ''readme.txt'', fullPath = ''/other/readme.txt''\<rparr>]"
proof (intro conjI)
  show "\<not> indexListDirty (projectRootChanged root s)"
    by (simp add: projectRootChanged_def sync_clean)
  have same: "syncFileIndex r (syncFileIndex (Some cssTree) moduleState) =
      syncFileIndex (Some cssTree) moduleState" for r
    by (simp add: syncFileIndex_def)
  show "projectRootChanged (Some otherTree) (syncFileIndex (Some cssTree) moduleState) =
     syncFileIndex (Some cssTree) moduleState"
    by (simp add: projectRootChanged_def same)
  have all: "indexList (syncFileIndex (Some cssTree) moduleState) ''all'' =
     Some \<lparr>indexName = ''all'',
           fileInfos = [\<lparr>name = ''main.js'', fullPath = ''/proj/main.js''\<rparr>,
                        \<lparr>name = ''theme.css'', fullPath = ''/proj/theme.css''\<rparr>,
                        \<lparr>name = ''reset.CSS'', fullPath = ''/proj/reset.CSS''\<rparr>],
           filterFunction = allFilter\<rparr>"
    by (simp add: model_defs cssTree_def)
  show "fst (getFileInfoList (Some otherTree) ''all''
          (projectRootChanged (Some otherTree) (syncFileIndex (Some cssTree) moduleState))) =
     Inr [\<lparr>name = ''main.js'', fullPath = ''/proj/main.js''\<rparr>,
          \<lparr>name = ''theme.css'', fullPath = ''/proj/theme.css''\<rparr>,
          \<lparr>name = ''reset.CSS'', fullPath = ''/proj/reset.CSS''\<rparr>]"
    by (simp add: projectRootChanged_def getFileInfoList_def same all)
  show "fst (getFileInfoList (Some otherTree) ''all'' (markDirty (syncFileIndex (Some cssTree) moduleState))) =
     Inr [\<lparr>name = ''readme.txt'', fullPath = ''/other/readme.txt''\<rparr>]"
    by (simp add: model_defs markDirty_def cssTree_def otherTree_def)
qed

text \<open>
  C3. In every state the module can reach, after \<^verbatim>\<open>sync()\<close> the dirty flag is cleared
  and, for every registered index and every record in its record list, the index's filter
  accepts every entry that has the record's name and fullPath, whatever the entry's other
  fields are.
\<close>

theorem sync_records_satisfy_filter:
  assumes "reachable s"
      and "indexList (syncFileIndex root s) k = Some index"
      and "r \<in> set (fileInfos index)"
      and "entry_name e = name r"
      and "entry_fullPath e = fullPath r"
  shows "\<not> indexListDirty (syncFileIndex root s) \<and> filterFunction index e"
proof -
  have reach: "reachable (syncFileIndex root s)"
    using assms(1) by (rule reachable_sync)
  then have "recordsFromAcceptedFiles (syncFileIndex root s)"
    by (rule accepted_reachable)
  with assms(2,3) obtain e0 where e0: "newFileInfo e0 = r" "filterFunction index e0"
    unfolding recordsFromAcceptedFiles_def by blast
  from e0(1) assms(4) have nm: "entry_name e = entry_name e0"
    by (auto simp: newFileInfo_def)
  from reach assms(2)
  have "filterFunction index = allFilter \<or> filterFunction index = cssFilter"
    by (rule reachable_filter_cases)
  then have "filterFunction index e"
  proof
    assume "filterFunction index = allFilter"
    then show ?thesis by (simp add: allFilter_def)
  next
    assume css: "filterFunction index = cssFilter"
    have "cssFilter e = cssFilter e0"
      by (simp add: cssFilter_def nm)
    with e0(2) css show ?thesis by simp
  qed
  then show ?thesis
    by (simp add: sync_clean)
qed

theorem sync_records_satisfy_filter_witness:
  "reachable (markDirty (syncFileIndex (Some otherTree) moduleState)) \<and>
   indexList (syncFileIndex (Some cssTree) (markDirty (syncFileIndex (Some otherTree) moduleState)))
       ''css'' =
     Some \<lparr>indexName = ''css'',
           fileInfos = [\<lparr>name = ''theme.css'', fullPath = ''/proj/theme.css''\<rparr>],
           filterFunction = cssFilter\<rparr> \<and>
   \<not> indexListDirty
       (syncFileIndex (Some cssTree) (markDirty (syncFileIndex (Some otherTree) moduleState))) \<and>
   cssFilter (Entry ''theme.css'' ''/proj/theme.css'' False False None)"
proof -
  have r: "reachable (markDirty (syncFileIndex (Some otherTree) moduleState))"
    by (intro reachable_markDirty reachable_sync reachable_init)
  have i: "indexList
      (syncFileIndex (Some cssTree) (markDirty (syncFileIndex (Some otherTree) moduleState)))
      ''css'' =
     Some \<lparr>indexName = ''css'',
           fileInfos = [\<lparr>name = ''theme.css'', fullPath = ''/proj/theme.css''\<rparr>],
           filterFunction = cssFilter\<rparr>"
    by (simp add: model_defs markDirty_def cssTree_def otherTree_def)
  have m: "\<lparr>name = ''theme.css'', fullPath = ''/proj/theme.css''\<rparr>
             \<in> set (fileInfos \<lparr>indexName = ''css'',
                   fileInfos = [\<lparr>name = ''theme.css'', fullPath = ''/proj/theme.css''\<rparr>],
                   filterFunction = cssFilter\<rparr>)"
    by simp
  have n: "entry_name (Entry ''theme.css'' ''/proj/theme.css'' False False None) =
      name \<lparr>name = ''theme.css'', fullPath = ''/proj/theme.css''\<rparr>"
    by simp
  have p: "entry_fullPath (Entry ''theme.css'' ''/proj/theme.css'' False False None) =
      fullPath \<lparr>name = ''theme.css'', fullPath = ''/proj/theme.css''\<rparr>"
    by simp
  note t = sync_records_satisfy_filter [OF r i m n p, unfolded FileIndex.select_convs]
  show ?thesis
    by (intro conjI) (rule r i t [THEN conjunct1] t [THEN conjunct2])+
qed

text \<open>
  C4. The filter of the pre-registered index \<^verbatim>\<open>css\<close> accepts exactly the entries whose
  name ends in the lowercase suffix \<^verbatim>\<open>.css\<close>. For a tree with the files \<^verbatim>\<open>main.js\<close>,
  \<^verbatim>\<open>theme.css\<close> and \<^verbatim>\<open>reset.CSS\<close>, after the sync the index \<^verbatim>\<open>css\<close> holds
  \<^verbatim>\<open>theme.css\<close> only, while the index \<^verbatim>\<open>all\<close> holds the three files.
\<close>

theorem css_index_case_sensitive:
  "map_option (\<lambda>index. filterFunction index e) (indexList moduleState ''css'') =
     Some (suffix ''.css'' (entry_name e)) \<and>
   map_option fileInfos (indexList (syncFileIndex (Some cssTree) moduleState) ''css'') =
     Some [\<lparr>name = ''theme.css'', fullPath = ''/proj/theme.css''\<rparr>] \<and>
   map_option fileInfos (indexList (syncFileIndex (Some cssTree) moduleState) ''all'') =
     Some [\<lparr>name = ''main.js'', fullPath = ''/proj/main.js''\<rparr>,
           \<lparr>name = ''theme.css'', fullPath = ''/proj/theme.css''\<rparr>,
           \<lparr>name = ''reset.CSS'', fullPath = ''/proj/reset.CSS''\<rparr>]"
proof (intro conjI)
  show "map_option (\<lambda>index. filterFunction index e) (indexList moduleState ''css'') =
     Some (suffix ''.css'' (entry_name e))"
    by (simp add: moduleState_def emptyState_def addIndex_def newFileIndex_def cssFilter_suffix)
  show "map_option fileInfos (indexList (syncFileIndex (Some cssTree) moduleState) ''css'') =
     Some [\<lparr>name = ''theme.css'', fullPath = ''/proj/theme.css''\<rparr>]"
    by (simp add: css_index_after_sync)
  show "map_option fileInfos (indexList (syncFileIndex (Some cssTree) moduleState) ''all'') =
     Some [\<lparr>name = ''main.js'', fullPath = ''/proj/main.js''\<rparr>,
           \<lparr>name = ''theme.css'', fullPath = ''/proj/theme.css''\<rparr>,
           \<lparr>name = ''reset.CSS'', fullPath = ''/proj/reset.CSS''\<rparr>]"
    by (simp add: model_defs cssTree_def)
qed

text \<open>
  C5. \<^verbatim>\<open>sync()\<close> is idempotent: a second call right after a first one, with no
  invalidation in between, leaves the whole state (every index's record list included) as
  the first call left it, whatever the root provider would return by then: the dirty flag
  is false, so the second call neither clears nor walks.
\<close>

theorem sync_idempotent:
  "syncFileIndex root2 (syncFileIndex root1 s) = syncFileIndex root1 s"
  by (simp add: syncFileIndex_def)

text \<open>
  C6. When the root provider supplies no project root, a dirty \<^verbatim>\<open>sync()\<close> clears the
  dirty flag and leaves every registered index with an empty record list (and otherwise
  as it was); nothing fails.
\<close>

theorem sync_without_root:
  assumes "indexListDirty s"
  shows "\<not> indexListDirty (syncFileIndex None s) \<and>
         indexList (syncFileIndex None s) k =
           map_option (\<lambda>index. index\<lparr>fileInfos := []\<rparr>) (indexList s k)"
  using assms by (simp add: syncFileIndex_def clearIndexes_def)

theorem sync_without_root_witness:
  "indexListDirty moduleState \<and> \<not> indexListDirty (syncFileIndex None moduleState) \<and>
   map_option fileInfos (indexList (syncFileIndex None moduleState) ''all'') = Some [] \<and>
   map_option fileInfos (indexList (syncFileIndex None moduleState) ''css'') = Some []"
proof -
  have d: "indexListDirty moduleState"
    by (simp add: moduleState_def addIndex_def emptyState_def)
  show ?thesis
    using d sync_without_root [OF d, of "''all''"] sync_without_root [OF d, of "''css''"]
    by (simp add: moduleState_def addIndex_def emptyState_def newFileIndex_def)
qed

text \<open>
  C7. \<^verbatim>\<open>registerIndex\<close> (\<^verbatim>\<open>_addIndex\<close>), for a name other than \<^verbatim>\<open>__proto__\<close> and a
  registry that holds no index named \<^verbatim>\<open>hasOwnProperty\<close>: it fails with the
  duplicate-name error for every name already in the registry, whatever the predicate is;
  for a name that is not in the registry it fails with the invalid-arguments error for
  every predicate that is not callable; otherwise it inserts a new index with an empty
  record list and sets the dirty flag. In both failure cases the state is unchanged. The
  claim's invalid-arguments error for every predicate that is not callable does not hold:
  the name is tested first, so a registered name with such a predicate gets the
  duplicate-name error.
\<close>

theorem addIndex_cases:
  assumes "n \<noteq> ''__proto__''"
      and "indexList s ''hasOwnProperty'' = None"
  shows
  "(indexList s n \<noteq> None \<longrightarrow> addIndex n f s = (Inl DuplicateIndexError, s)) \<and>
   (indexList s n = None \<and> f = NotCallable \<longrightarrow> addIndex n f s = (Inl InvalidArgumentError, s)) \<and>
   (indexList s n = None \<and> f = Callable g \<longrightarrow>
      addIndex n f s =
        (Inr (), s\<lparr>indexList := (indexList s)(n \<mapsto> \<lparr>indexName = n, fileInfos = [], filterFunction = g\<rparr>),
                   indexListDirty := True\<rparr>))"
  by (simp add: addIndex_def newFileIndex_def)

theorem addIndex_registered_name_not_callable_counterexample:
  "indexList moduleState ''css'' \<noteq> None \<and>
   addIndex ''css'' NotCallable moduleState = (Inl DuplicateIndexError, moduleState) \<and>
   fst (addIndex ''css'' NotCallable moduleState) \<noteq> Inl InvalidArgumentError"
  by (simp add: moduleState_def emptyState_def addIndex_def)

theorem addIndex_cases_witness:
  "indexList moduleState ''hasOwnProperty'' = None \<and>
   indexList moduleState ''css'' \<noteq> None \<and>
   addIndex ''css'' (Callable allFilter) moduleState = (Inl DuplicateIndexError, moduleState) \<and>
   addIndex ''css'' NotCallable moduleState = (Inl DuplicateIndexError, moduleState) \<and>
   indexList moduleState ''js'' = None \<and>
   addIndex ''js'' NotCallable moduleState = (Inl InvalidArgumentError, moduleState) \<and>
   (let s' = snd (addIndex ''js'' (Callable allFilter) (syncFileIndex None moduleState))
    in fst (addIndex ''js'' (Callable allFilter) (syncFileIndex None moduleState)) = Inr () \<and>
       map_option fileInfos (indexList s' ''js'') = Some [] \<and> indexListDirty s')"
proof -
  have h: "indexList moduleState ''hasOwnProperty'' = None"
    by (simp add: moduleState_def addIndex_def emptyState_def)
  have h': "indexList (syncFileIndex None moduleState) ''hasOwnProperty'' = None"
    using h by (simp add: sync_registered)
  have css: "''css'' \<noteq> ''__proto__''" and js: "''js'' \<noteq> ''__proto__''"
    by simp_all
  have a: "indexList moduleState ''css'' \<noteq> None"
    by (simp add: moduleState_def addIndex_def emptyState_def)
  have b: "indexList moduleState ''js'' = None"
    by (simp add: moduleState_def addIndex_def emptyState_def)
  have c: "indexList (syncFileIndex None moduleState) ''js'' = None"
    using b by (simp add: sync_registered)
  show ?thesis
    using h a b c
      addIndex_cases [OF css h, of "Callable allFilter"]
      addIndex_cases [OF css h, of NotCallable]
      addIndex_cases [OF js h, of NotCallable]
      addIndex_cases [OF js h', of "Callable allFilter" allFilter]
    by (simp add: Let_def)
qed

text \<open>
  C8. \<^verbatim>\<open>getRecordsByName\<close> (\<^verbatim>\<open>getFilenameMatches\<close>) returns exactly the records of the
  named index, as the sync leaves it, whose name equals the file name, all of them and in
  the order of the index. For a tree with \<^verbatim>\<open>/a/style.css\<close> and \<^verbatim>\<open>/b/style.css\<close>, the
  query for \<^verbatim>\<open>style.css\<close> in the index \<^verbatim>\<open>all\<close> returns these two records, in the order
  of discovery.
\<close>

theorem getFilenameMatches_all_in_order:
  "(indexList (syncFileIndex root s) n = Some index \<longrightarrow>
      getFilenameMatches root n filename s =
        (Inr (filter (\<lambda>r. name r = filename) (fileInfos index)), syncFileIndex root s)) \<and>
   fst (getFilenameMatches (Some styleTree) ''all'' ''style.css'' moduleState) =
     Inr [\<lparr>name = ''style.css'', fullPath = ''/a/style.css''\<rparr>,
          \<lparr>name = ''style.css'', fullPath = ''/b/style.css''\<rparr>]"
  by (simp add: getFilenameMatches_def getFilteredList_eq all_index_styleTree)

theorem getFilenameMatches_all_in_order_witness:
  "indexList (syncFileIndex (Some styleTree) moduleState) ''css'' =
     Some \<lparr>indexName = ''css'',
           fileInfos = [\<lparr>name = ''style.css'', fullPath = ''/a/style.css''\<rparr>,
                        \<lparr>name = ''style.css'', fullPath = ''/b/style.css''\<rparr>],
           filterFunction = cssFilter\<rparr> \<and>
   getFilenameMatches (Some styleTree) ''css'' ''style.css'' moduleState =
     (Inr [\<lparr>name = ''style.css'', fullPath = ''/a/style.css''\<rparr>,
           \<lparr>name = ''style.css'', fullPath = ''/b/style.css''\<rparr>],
      syncFileIndex (Some styleTree) moduleState) \<and>
   fst (getFilenameMatches (Some styleTree) ''css'' ''index.html'' moduleState) = Inr []"
proof -
  have i: "indexList (syncFileIndex (Some styleTree) moduleState) ''css'' =
     Some \<lparr>indexName = ''css'',
           fileInfos = [\<lparr>name = ''style.css'', fullPath = ''/a/style.css''\<rparr>,
                        \<lparr>name = ''style.css'', fullPath = ''/b/style.css''\<rparr>],
           filterFunction = cssFilter\<rparr>"
    by (simp add: model_defs styleTree_def)
  show ?thesis
    using i
      getFilenameMatches_all_in_order [of "Some styleTree" moduleState "''css''" _ "''style.css''"]
      getFilenameMatches_all_in_order [of "Some styleTree" moduleState "''css''" _ "''index.html''"]
    by simp
qed

text \<open>
  C9. For every registered index name and every predicate, \<^verbatim>\<open>getFilteredRecords\<close>
  (\<^verbatim>\<open>getFilteredList\<close>) returns the records of the named index for which the predicate
  holds of the record's name, in the order of the index; the state it leaves is the state
  the sync leaves, so the index still holds its whole record list.
\<close>

theorem getFilteredList_pure:
  assumes "indexList s n \<noteq> None"
  shows "\<exists>index. indexList (syncFileIndex root s) n = Some index \<and>
           getFilteredList root n f s =
             (Inr (filter (\<lambda>r. f (name r)) (fileInfos index)), syncFileIndex root s) \<and>
           indexList (snd (getFilteredList root n f s)) n = Some index"
proof -
  from assms obtain index where "indexList (syncFileIndex root s) n = Some index"
    using sync_registered [of root s n] by auto
  then show ?thesis
    by (simp add: getFilteredList_eq)
qed

theorem getFilteredList_pure_witness:
  "indexList moduleState ''all'' \<noteq> None \<and>
   getFilteredList (Some styleTree) ''all'' (\<lambda>x. x \<noteq> ''style.css'') moduleState =
     (Inr [\<lparr>name = ''index.html'', fullPath = ''/a/index.html''\<rparr>],
      syncFileIndex (Some styleTree) moduleState) \<and>
   map_option fileInfos
     (indexList (snd (getFilteredList (Some styleTree) ''all'' (\<lambda>x. x \<noteq> ''style.css'') moduleState)) ''all'') =
     Some [\<lparr>name = ''index.html'', fullPath = ''/a/index.html''\<rparr>,
           \<lparr>name = ''style.css'', fullPath = ''/a/style.css''\<rparr>,
           \<lparr>name = ''style.css'', fullPath = ''/b/style.css''\<rparr>]"
proof -
  have r: "indexList moduleState ''all'' \<noteq> None"
    by (simp add: moduleState_def emptyState_def addIndex_def)
  show ?thesis
    using r getFilteredList_pure [OF r, of "Some styleTree" "\<lambda>x. x \<noteq> ''style.css''"]
    by (auto simp: all_index_styleTree)
qed

text \<open>
  C10. \<^verbatim>\<open>getIndexRecords\<close> (\<^verbatim>\<open>getFileInfoList\<close>) called with a name that is not
  registered fails with the unknown-index error after the sync has run: the state it
  leaves is the synced state, with the dirty flag cleared, and when the registry was
  dirty this is the rebuilt state, which differs from the state before the call.
\<close>

theorem getFileInfoList_unknown_syncs_first:
  assumes "indexList s n = None"
  shows "getFileInfoList root n s = (Inl UnknownIndexError, syncFileIndex root s) \<and>
         \<not> indexListDirty (snd (getFileInfoList root n s)) \<and>
         (indexListDirty s \<longrightarrow>
            snd (getFileInfoList root n s) =
              (scanDirectoryRecurse root Undefined (clearIndexes s))\<lparr>indexListDirty := False\<rparr> \<and>
            snd (getFileInfoList root n s) \<noteq> s)"
proof -
  have "indexList (syncFileIndex root s) n = None"
    using assms by (simp add: sync_registered)
  then have 1: "getFileInfoList root n s = (Inl UnknownIndexError, syncFileIndex root s)"
    by (simp add: getFileInfoList_def Let_def)
  have 2: "indexListDirty s \<Longrightarrow> syncFileIndex root s \<noteq> s"
    using sync_clean [of root s] by auto
  show ?thesis
    using 1 2 by (auto simp: sync_clean) (simp add: syncFileIndex_def)
qed

theorem getFileInfoList_unknown_syncs_first_witness:
  "indexList moduleState ''js'' = None \<and> indexListDirty moduleState \<and>
   getFileInfoList (Some cssTree) ''js'' moduleState =
     (Inl UnknownIndexError, syncFileIndex (Some cssTree) moduleState) \<and>
   \<not> indexListDirty (snd (getFileInfoList (Some cssTree) ''js'' moduleState)) \<and>
   snd (getFileInfoList (Some cssTree) ''js'' moduleState) \<noteq> moduleState \<and>
   map_option fileInfos
     (indexList (snd (getFileInfoList (Some cssTree) ''js'' moduleState)) ''css'') =
     Some [\<lparr>name = ''theme.css'', fullPath = ''/proj/theme.css''\<rparr>]"
proof -
  have n: "indexList moduleState ''js'' = None"
    by (simp add: moduleState_def emptyState_def addIndex_def)
  have d: "indexListDirty moduleState"
    by (simp add: moduleState_def emptyState_def addIndex_def)
  note t = getFileInfoList_unknown_syncs_first [OF n, of "Some cssTree"]
  from t have 1: "getFileInfoList (Some cssTree) ''js'' moduleState =
      (Inl UnknownIndexError, syncFileIndex (Some cssTree) moduleState)"
    by (rule conjunct1)
  from t have 2: "\<not> indexListDirty (snd (getFileInfoList (Some cssTree) ''js'' moduleState))"
    by (rule conjunct2 [THEN conjunct1])
  from t d have 3: "snd (getFileInfoList (Some cssTree) ''js'' moduleState) \<noteq> moduleState"
    by (rule conjunct2 [THEN conjunct2, THEN mp, THEN conjunct2])
  have 4: "map_option fileInfos
     (indexList (snd (getFileInfoList (Some cssTree) ''js'' moduleState)) ''css'') =
     Some [\<lparr>name = ''theme.css'', fullPath = ''/proj/theme.css''\<rparr>]"
    by (simp add: 1 css_index_after_sync)
  show ?thesis
    by (intro conjI) (rule n d 1 2 3 4)+
qed

end
